theory Spec2Isabelle
  imports Complex_Main
begin

section \<open>JavaScript values\<close>

text \<open>
  The request body is whatever \<open>express.json()\<close> decoded (or \<open>undefined\<close> when there
  was no body), cast unchecked to \<open>JSONRPCMessage\<close>. The classifiers take \<open>msg: any\<close>, so
  the model keeps every shape a decoded JSON value can have, plus \<open>undefined\<close>. A finite
  JSON number is a rational; an object is its list of own properties.
\<close>

datatype jsval =
    JUndefined
  | JNull
  | JBool bool
  | JNumber rat
  | JString string
  | JArray "jsval list"
  | JObject "(string \<times> jsval) list"

datatype exn = TypeError | EngineError

text \<open>JavaScript truthiness (\<open>ToBoolean\<close>), as \<open>&&\<close>, \<open>||\<close>, \<open>!\<close> and \<open>if\<close> use it.\<close>

fun truthy :: "jsval \<Rightarrow> bool" where
  "truthy JUndefined = False"
| "truthy JNull = False"
| "truthy (JBool b) = b"
| "truthy (JNumber n) = (n \<noteq> 0)"
| "truthy (JString s) = (s \<noteq> [])"
| "truthy (JArray xs) = True"
| "truthy (JObject kvs) = True"

text \<open>
  Property read \<open>v.k\<close>. Reading a property of \<open>undefined\<close> or \<open>null\<close> throws a TypeError;
  a primitive or an array has none of the properties the classifiers read (\<open>method\<close>,
  \<open>id\<close>, \<open>result\<close>, \<open>error\<close>: none of them is on a built-in prototype), so the read
  gives \<open>undefined\<close>; an object gives its own property, or \<open>undefined\<close>. Index and
  \<open>length\<close> reads of arrays and strings are not used by the program and not modelled.
\<close>

fun get_prop :: "jsval \<Rightarrow> string \<Rightarrow> exn + jsval" where
  "get_prop JUndefined k = Inl TypeError"
| "get_prop JNull k = Inl TypeError"
| "get_prop (JObject kvs) k = Inr (case map_of kvs k of None \<Rightarrow> JUndefined | Some v \<Rightarrow> v)"
| "get_prop v k = Inr JUndefined"

text \<open>\<open>typeof v === "string"\<close>\<close>

fun typeof_string :: "jsval \<Rightarrow> bool" where
  "typeof_string (JString s) = True"
| "typeof_string v = False"

text \<open>
  \<open>a && b\<close> and \<open>a || b\<close>: the right operand is evaluated only when the left one does not
  decide, and the result is the deciding operand itself, not a boolean. An exception of an
  operand that is evaluated is the exception of the whole expression.
\<close>

definition js_and :: "exn + jsval \<Rightarrow> exn + jsval \<Rightarrow> exn + jsval" where
  "js_and a b = (case a of Inl e \<Rightarrow> Inl e | Inr v \<Rightarrow> if truthy v then b else Inr v)"

definition js_or :: "exn + jsval \<Rightarrow> exn + jsval \<Rightarrow> exn + jsval" where
  "js_or a b = (case a of Inl e \<Rightarrow> Inl e | Inr v \<Rightarrow> if truthy v then Inr v else b)"

text \<open>Apply a test to the value of an expression that may have thrown.\<close>

definition js_test :: "(jsval \<Rightarrow> bool) \<Rightarrow> exn + jsval \<Rightarrow> exn + jsval" where
  "js_test p a = (case a of Inl e \<Rightarrow> Inl e | Inr v \<Rightarrow> Inr (JBool (p v)))"

section \<open>Message classifier (http-server.ts, lines 287-301)\<close>

text \<open>\<open>return msg && msg.method === "initialize";\<close>\<close>

definition isInitializeRequest :: "jsval \<Rightarrow> exn + jsval" where
  "isInitializeRequest msg =
     js_and (Inr msg) (js_test (\<lambda>v. v = JString ''initialize'') (get_prop msg ''method''))"

text \<open>\<open>return msg && typeof msg.method === "string" && msg.id !== undefined;\<close>\<close>

definition isRequest :: "jsval \<Rightarrow> exn + jsval" where
  "isRequest msg =
     js_and (js_and (Inr msg) (js_test typeof_string (get_prop msg ''method'')))
            (js_test (\<lambda>v. v \<noteq> JUndefined) (get_prop msg ''id''))"

text \<open>\<open>return msg && typeof msg.method === "string" && msg.id === undefined;\<close>\<close>

definition isNotification :: "jsval \<Rightarrow> exn + jsval" where
  "isNotification msg =
     js_and (js_and (Inr msg) (js_test typeof_string (get_prop msg ''method'')))
            (js_test (\<lambda>v. v = JUndefined) (get_prop msg ''id''))"

text \<open>
  \<open>return msg && (msg.result !== undefined || msg.error !== undefined) && msg.id !== undefined;\<close>
\<close>

definition isResponse :: "jsval \<Rightarrow> exn + jsval" where
  "isResponse msg =
     js_and (js_and (Inr msg)
                    (js_or (js_test (\<lambda>v. v \<noteq> JUndefined) (get_prop msg ''result''))
                           (js_test (\<lambda>v. v \<noteq> JUndefined) (get_prop msg ''error''))))
            (js_test (\<lambda>v. v \<noteq> JUndefined) (get_prop msg ''id''))"

section \<open>Security middleware (http-server.ts, lines 13-53)\<close>

text \<open>
  \<open>String.prototype.split\<close> with a one-character separator: every occurrence cuts, nothing
  is trimmed, and the result of a string with no separator is the string itself, so the
  result is never empty.
\<close>

fun split_on :: "char \<Rightarrow> string \<Rightarrow> string list" where
  "split_on c [] = [[]]"
| "split_on c (x # xs) =
     (if x = c then [] # split_on c xs
      else (case split_on c xs of [] \<Rightarrow> [[x]] | p # ps \<Rightarrow> (x # p) # ps))"

text \<open>
  \<open>process.env.ALLOWED_ORIGINS ? process.env.ALLOWED_ORIGINS.split(',') : []\<close>, the variable
  being unset (\<open>None\<close>) or a string; the empty string is falsy.
\<close>

definition allowedOrigins :: "string option \<Rightarrow> string list" where
  "allowedOrigins env =
     (case env of None \<Rightarrow> [] | Some s \<Rightarrow> if s \<noteq> [] then split_on (CHR '','') s else [])"

text \<open>The middleware either answers itself or calls \<open>next()\<close>.\<close>

datatype middleware_result = Next | Answered nat jsval

text \<open>
  \<open>origin\<close> is \<open>req.headers.origin\<close>: absent or a string. Line 18 tests its truthiness,
  line 19 the allow-list.
\<close>

definition security_middleware :: "string option \<Rightarrow> string option \<Rightarrow> middleware_result" where
  "security_middleware env origin =
     (case origin of
        None \<Rightarrow> Next
      | Some og \<Rightarrow>
          if og \<noteq> [] then
            (if length (allowedOrigins env) > 0 \<and> og \<notin> set (allowedOrigins env) then
               Answered 403
                 (JObject [(''jsonrpc'', JString ''2.0''),
                           (''error'', JObject [(''code'', JNumber (- 32000)),
                                                (''message'', JString ''Forbidden: Invalid Origin'')]),
                           (''id'', JNull)])
             else Next)
          else Next)"

section \<open>Session transport (http-server.ts, lines 78-169)\<close>

text \<open>
  The Protocol Engine is outside this file. What the transport sees of it is the
  \<open>onmessage\<close> callback that \<open>server.connect\<close> installs: called with an inbound message it
  either throws or returns, and the engine then calls \<open>send\<close> with the outbound messages it
  produces for that message, in order. The engine may keep state, so its behaviour is a
  function of the messages it has received before.
\<close>

datatype engine_result = Throws | Emits "jsval list"

type_synonym engine = "jsval list \<Rightarrow> jsval \<Rightarrow> engine_result"

text \<open>
  The Express response object, as far as this file uses it: the status, the headers set,
  the chunks written by \<open>res.write\<close> in order, and \<open>writableEnded\<close>.
\<close>

record response =
  statusCode :: nat
  headers :: "(string \<times> string) list"
  chunks :: "string list"
  writableEnded :: bool

text \<open>
  The only function ever stored in \<open>_pendingRequestHandler\<close> is the \<open>resolve\<close> function of
  a promise created at line 261; it is represented by the number of that promise.
\<close>

type_synonym handler = nat

text \<open>
  The fields of \<open>StreamableHttpTransport\<close>. \<open>received\<close> is not a field of the class: it is
  the state of the engine behind \<open>_onmessage\<close>, the messages the callback has been called
  with. \<open>_onclose\<close> is used by \<open>close()\<close> only and left out.
\<close>

record transport =
  onmessage :: "engine option"
  received :: "jsval list"
  currentResponse :: "response option"
  messageQueue :: "jsval list"
  sessionId :: string
  pendingRequestHandler :: "handler option"

text \<open>
  What the platform provides: the successive results of \<open>uuidv4()\<close>, \<open>JSON.stringify\<close>, and
  the engine that \<open>createMcpServer()\<close> builds.
\<close>

record runtime =
  uuidv4 :: "nat \<Rightarrow> string"
  JSON_stringify :: "jsval \<Rightarrow> string"
  createMcpServer :: engine

text \<open>
  The part of the process state outside the transports: how many identifiers \<open>uuidv4()\<close>
  has produced, how many promises line 261 has created, and the calls of their \<open>resolve\<close>
  functions, in order (a promise takes the value of the first call).
\<close>

record heap =
  uuidCount :: nat
  promiseCount :: nat
  resolutions :: "(handler \<times> jsval) list"

text \<open>\<open>`id: ${eventId}\nevent: message\ndata: ${data}\n\n`\<close>\<close>

definition sse_event :: "string \<Rightarrow> string \<Rightarrow> string" where
  "sse_event eventId data =
     ''id: '' @ eventId @ [CHR 0x0A] @ ''event: message'' @ [CHR 0x0A] @
     ''data: '' @ data @ [CHR 0x0A, CHR 0x0A]"

text \<open>
  \<open>send\<close> (lines 102-132). The function is \<open>async\<close> but contains no \<open>await\<close>: a call
  runs to its end before the caller continues.
\<close>

definition send :: "runtime \<Rightarrow> jsval \<Rightarrow> heap \<times> transport \<Rightarrow> heap \<times> transport" where
  "send rt message s =
     (case s of (h, t) \<Rightarrow>
        (case pendingRequestHandler t of
           Some handler \<Rightarrow>
             (h\<lparr>resolutions := resolutions h @ [(handler, message)]\<rparr>,
              t\<lparr>pendingRequestHandler := None\<rparr>)
         | None \<Rightarrow>
             (case currentResponse t of
                Some res \<Rightarrow>
                  if \<not> writableEnded res then
                    (h\<lparr>uuidCount := Suc (uuidCount h)\<rparr>,
                     t\<lparr>currentResponse := Some (res\<lparr>chunks := chunks res @
                          [sse_event (uuidv4 rt (uuidCount h)) (JSON_stringify rt message)]\<rparr>)\<rparr>)
                  else (h, t\<lparr>messageQueue := messageQueue t @ [message]\<rparr>)
              | None \<Rightarrow> (h, t\<lparr>messageQueue := messageQueue t @ [message]\<rparr>))))"

text \<open>\<open>setPendingRequestHandler\<close> (lines 141-143)\<close>

definition setPendingRequestHandler :: "handler \<Rightarrow> transport \<Rightarrow> transport" where
  "setPendingRequestHandler handler t = t\<lparr>pendingRequestHandler := Some handler\<rparr>"

text \<open>
  \<open>handleMessage\<close> (lines 135-139): calls \<open>_onmessage\<close> when it is set. The second component
  is the exception the callback threw, if any. The engine's outbound messages go through
  \<open>send\<close> one after the other.
\<close>

definition handleMessage ::
  "runtime \<Rightarrow> jsval \<Rightarrow> heap \<times> transport \<Rightarrow> (heap \<times> transport) \<times> exn option" where
  "handleMessage rt message s =
     (case s of (h, t) \<Rightarrow>
        (case onmessage t of
           None \<Rightarrow> (s, None)
         | Some f \<Rightarrow>
             (let t1 = t\<lparr>received := received t @ [message]\<rparr> in
              case f (received t) message of
                Throws \<Rightarrow> ((h, t1), Some EngineError)
              | Emits outs \<Rightarrow> (fold (send rt) outs (h, t1), None))))"

text \<open>
  The loop of \<open>attachResponse\<close> (lines 150-155): while the queue is not empty, take its
  first message and, when the message is truthy, \<open>send\<close> it. \<open>send\<close> may put the message
  back on the queue, so the loop need not end: not returning is the value \<open>None\<close>.
\<close>

partial_function (option) flushQueue ::
  "runtime \<Rightarrow> heap \<times> transport \<Rightarrow> (heap \<times> transport) option" where
  "flushQueue rt s =
     (case messageQueue (snd s) of
        [] \<Rightarrow> Some s
      | msg # rest \<Rightarrow>
          flushQueue rt
            (if truthy msg then send rt msg (fst s, (snd s)\<lparr>messageQueue := rest\<rparr>)
             else (fst s, (snd s)\<lparr>messageQueue := rest\<rparr>)))"

text \<open>\<open>attachResponse\<close> (lines 146-156)\<close>

definition attachResponse ::
  "runtime \<Rightarrow> response \<Rightarrow> heap \<times> transport \<Rightarrow> (heap \<times> transport) option" where
  "attachResponse rt res s = flushQueue rt (fst s, (snd s)\<lparr>currentResponse := Some res\<rparr>)"

text \<open>
  The SSE events of a list of messages, the first with the \<open>k\<close>-th generated identifier:
  what a sink is expected to receive for them, in order and once each.
\<close>

fun sse_events :: "runtime \<Rightarrow> nat \<Rightarrow> jsval list \<Rightarrow> string list" where
  "sse_events rt k [] = []"
| "sse_events rt k (m # ms) =
     sse_event (uuidv4 rt k) (JSON_stringify rt m) # sse_events rt (Suc k) ms"

section \<open>Message-submit handler (http-server.ts, lines 203-285)\<close>

text \<open>
  What the handler does with the HTTP response: \<open>res.status(n).send(text)\<close>,
  \<open>res.json(v)\<close> (status 200), \<open>res.status(n).end()\<close>, leaving the response open as the
  sink of the new session, never answering (the awaited promise is never resolved), or
  ending with an exception that nothing in the handler catches.
\<close>

datatype reply =
    Send nat string
  | SendJson nat jsval
  | End nat
  | Streaming
  | NoReply
  | Uncaught exn

text \<open>
  The session registry (line 76) and the rest of the process state. The \<open>server\<close> member
  of a registry entry is reached through the transport's \<open>onmessage\<close> only.
\<close>

record world =
  sessions :: "string \<rightharpoonup> transport"
  hp :: heap

text \<open>\<open>new StreamableHttpTransport(newSessionId)\<close> (field initialisers and constructor)\<close>

definition newTransport :: "string \<Rightarrow> transport" where
  "newTransport sid =
     \<lparr>onmessage = None, received = [], currentResponse = None, messageQueue = [],
      sessionId = sid, pendingRequestHandler = None\<rparr>"

text \<open>
  \<open>const server = createMcpServer(); await server.connect(transport);\<close>: the SDK sets the
  transport's \<open>onmessage\<close> to the server's handler and calls \<open>start()\<close>, a no-op.
\<close>

definition connect :: "runtime \<Rightarrow> transport \<Rightarrow> transport" where
  "connect rt t = t\<lparr>onmessage := Some (createMcpServer rt)\<rparr>"

text \<open>
  Lines 217-237, the branch of an Initialize-Request without session identifier. The
  registry holds the transport object itself, so the entry shows what the later calls do
  to it.
\<close>

definition post_initialize :: "runtime \<Rightarrow> jsval \<Rightarrow> world \<Rightarrow> (world \<times> reply) option" where
  "post_initialize rt body w =
     (let h0 = hp w;
          newSessionId = uuidv4 rt (uuidCount h0);
          h1 = h0\<lparr>uuidCount := Suc (uuidCount h0)\<rparr>;
          transport = connect rt (newTransport newSessionId);
          eventId = uuidv4 rt (uuidCount h1);
          h2 = h1\<lparr>uuidCount := Suc (uuidCount h1)\<rparr>;
          res = \<lparr>statusCode = 200,
                 headers = [(''MCP-Session-Id'', newSessionId),
                            (''Content-Type'', ''text/event-stream''),
                            (''Cache-Control'', ''no-cache''),
                            (''Connection'', ''keep-alive'')],
                 chunks = [sse_event eventId []],
                 writableEnded = False\<rparr>
      in case attachResponse rt res (h2, transport) of
           None \<Rightarrow> None
         | Some s \<Rightarrow>
             (case handleMessage rt body s of
                ((h3, t3), ex) \<Rightarrow>
                  Some (\<lparr>sessions = (sessions w)(newSessionId \<mapsto> t3), hp = h3\<rparr>,
                        case ex of None \<Rightarrow> Streaming | Some e \<Rightarrow> Uncaught e)))"

text \<open>Lines 214-242: no session identifier.\<close>

definition post_no_session :: "runtime \<Rightarrow> jsval \<Rightarrow> world \<Rightarrow> (world \<times> reply) option" where
  "post_no_session rt body w =
     (case isInitializeRequest body of
        Inl e \<Rightarrow> Some (w, Uncaught e)
      | Inr c \<Rightarrow>
          if truthy c then post_initialize rt body w
          else Some (w, Send 400 ''Missing MCP-Session-Id header''))"

text \<open>
  The value of \<open>await responsePromise\<close> for the promise \<open>p\<close>, created when \<open>old\<close> were the
  calls recorded so far: the message of the first later call of its \<open>resolve\<close>. The promise
  is built from a \<open>resolve\<close> callback alone (line 261), so it is resolved or stays pending;
  it is never rejected.
\<close>

definition awaited :: "handler \<Rightarrow> (handler \<times> jsval) list \<Rightarrow> heap \<Rightarrow> jsval option" where
  "awaited p old h = map_of (drop (length old) (resolutions h)) p"

text \<open>
  Lines 250-284: the session \<open>sid\<close> is known and \<open>t\<close> is its transport. Notification and
  Response are tested first, Request second. In the Request branch the handler is installed
  and the message delivered before the \<open>try\<close>; inside the \<open>try\<close> are the \<open>await\<close> and
  \<open>res.json\<close>, neither of which throws, so the \<open>catch\<close> clause (status 500) has no path to it.
\<close>

definition post_session ::
  "runtime \<Rightarrow> string \<Rightarrow> transport \<Rightarrow> jsval \<Rightarrow> world \<Rightarrow> world \<times> reply" where
  "post_session rt sid t body w =
     (case js_or (isNotification body) (isResponse body) of
        Inl e \<Rightarrow> (w, Uncaught e)
      | Inr c \<Rightarrow>
          if truthy c then
            (case handleMessage rt body (hp w, t) of
               ((h1, t1), ex) \<Rightarrow>
                 (w\<lparr>sessions := (sessions w)(sid \<mapsto> t1), hp := h1\<rparr>,
                  case ex of None \<Rightarrow> End 202 | Some e \<Rightarrow> Uncaught e))
          else
            (case isRequest body of
               Inl e \<Rightarrow> (w, Uncaught e)
             | Inr c' \<Rightarrow>
                 if truthy c' then
                   (let p = promiseCount (hp w);
                        h0 = (hp w)\<lparr>promiseCount := Suc p\<rparr>;
                        t0 = setPendingRequestHandler p t
                    in case handleMessage rt body (h0, t0) of
                         ((h1, t1), ex) \<Rightarrow>
                           (w\<lparr>sessions := (sessions w)(sid \<mapsto> t1), hp := h1\<rparr>,
                            case ex of
                              Some e \<Rightarrow> Uncaught e
                            | None \<Rightarrow>
                                (case awaited p (resolutions h0) h1 of
                                   Some response \<Rightarrow> SendJson 200 response
                                 | None \<Rightarrow> NoReply)))
                 else (w, Send 400 ''Invalid JSON-RPC message'')))"

text \<open>
  \<open>app.post("/mcp", ...)\<close>. \<open>sessionIdHeader\<close> is the \<open>mcp-session-id\<close> header, absent or a string;
  line 214 tests its truthiness, so an empty header counts as none.
\<close>

definition post_mcp ::
  "runtime \<Rightarrow> string option \<Rightarrow> jsval \<Rightarrow> world \<Rightarrow> (world \<times> reply) option" where
  "post_mcp rt sessionIdHeader body w =
     (case sessionIdHeader of
        None \<Rightarrow> post_no_session rt body w
      | Some sid \<Rightarrow>
          if sid = [] then post_no_session rt body w
          else
            (case sessions w sid of
               None \<Rightarrow> Some (w, Send 404 ''Session not found'')
             | Some t \<Rightarrow> Some (post_session rt sid t body w)))"


section \<open>Auxiliary notions for the statements\<close>

text \<open>
  The condition of an \<open>if\<close> holds when evaluating it throws nothing and gives a truthy
  value.
\<close>

definition holds :: "exn + jsval \<Rightarrow> bool" where
  "holds r = (case r of Inl e \<Rightarrow> False | Inr v \<Rightarrow> truthy v)"

text \<open>
  Concrete values at which the theorems below are instantiated: a platform whose \<open>n\<close>-th
  identifier is \<open>uuid-\<close> followed by \<open>n\<close> letters and whose serialiser prints the keys of an
  object; a registry with the one session \<open>s1\<close>, connected to a given engine; a request
  and a response.
\<close>

definition example_runtime :: runtime where
  "example_runtime =
     \<lparr>uuidv4 = (\<lambda>n. ''uuid-'' @ replicate n (CHR ''x'')),
      JSON_stringify = (\<lambda>v. case v of JObject kvs \<Rightarrow> concat (map fst kvs) | _ \<Rightarrow> []),
      createMcpServer = (\<lambda>hist msg. Emits [])\<rparr>"

definition example_world :: "engine \<Rightarrow> world" where
  "example_world f =
     \<lparr>sessions = [''s1'' \<mapsto> (newTransport ''s1'')\<lparr>onmessage := Some f\<rparr>],
      hp = \<lparr>uuidCount = 0, promiseCount = 0, resolutions = []\<rparr>\<rparr>"

definition example_request :: "string \<Rightarrow> jsval" where
  "example_request method =
     JObject [(''jsonrpc'', JString ''2.0''), (''id'', JNumber 2), (''method'', JString method)]"

definition example_response :: "rat \<Rightarrow> jsval" where
  "example_response n =
     JObject [(''jsonrpc'', JString ''2.0''), (''id'', JNumber n), (''result'', JObject [])]"

section \<open>Classifier: totality\<close>

lemma get_prop_truthy: "truthy msg \<Longrightarrow> \<exists>v. get_prop msg k = Inr v"
  by (cases msg) simp_all

text \<open>
  Claim C7. The four classifier predicates are total over arbitrary input: for every value
  (object or not, with fields of any type, \<open>null\<close> and \<open>undefined\<close> included) each of them
  returns a value and none throws. Each is a function of the message alone, reading no
  other state and changing none, so the same input gives the same classification.
\<close>

theorem classifier_total:
  "(\<exists>v. isInitializeRequest msg = Inr v) \<and> (\<exists>v. isRequest msg = Inr v) \<and>
   (\<exists>v. isNotification msg = Inr v) \<and> (\<exists>v. isResponse msg = Inr v)"
  by (cases msg)
     (simp_all add: isInitializeRequest_def isRequest_def isNotification_def isResponse_def
        js_and_def js_or_def js_test_def)

section \<open>Classifier: when each predicate holds\<close>

lemma holds_isInitializeRequest:
  "holds (isInitializeRequest msg) \<longleftrightarrow> get_prop msg ''method'' = Inr (JString ''initialize'')"
  by (cases msg) (auto simp: holds_def isInitializeRequest_def js_and_def js_test_def split: option.splits)

lemma holds_isRequest:
  "holds (isRequest msg) \<longleftrightarrow>
     (\<exists>s i. get_prop msg ''method'' = Inr (JString s) \<and> get_prop msg ''id'' = Inr i \<and> i \<noteq> JUndefined)"
  by (cases msg; cases "get_prop msg ''method''"; cases "projr (get_prop msg ''method'')")
     (auto simp: holds_def isRequest_def js_and_def js_test_def split: option.splits)

lemma holds_isNotification:
  "holds (isNotification msg) \<longleftrightarrow>
     (\<exists>s. get_prop msg ''method'' = Inr (JString s) \<and> get_prop msg ''id'' = Inr JUndefined)"
  by (cases msg; cases "get_prop msg ''method''"; cases "projr (get_prop msg ''method'')")
     (auto simp: holds_def isNotification_def js_and_def js_test_def split: option.splits)

lemma holds_isResponse:
  "holds (isResponse msg) \<longleftrightarrow>
     truthy msg \<and>
     (\<exists>r e i. get_prop msg ''result'' = Inr r \<and> get_prop msg ''error'' = Inr e \<and>
        (r \<noteq> JUndefined \<or> e \<noteq> JUndefined) \<and> get_prop msg ''id'' = Inr i \<and> i \<noteq> JUndefined)"
  by (cases msg)
     (auto simp: holds_def isResponse_def js_and_def js_or_def js_test_def split: option.splits)

lemma classifier_values:
  "\<exists>a b c d. isInitializeRequest msg = Inr a \<and> isRequest msg = Inr b \<and>
     isNotification msg = Inr c \<and> isResponse msg = Inr d"
  by (cases msg)
     (simp_all add: isInitializeRequest_def isRequest_def isNotification_def isResponse_def
        js_and_def js_or_def js_test_def)

lemma js_or_holds:
  "a = Inr x \<Longrightarrow> b = Inr y \<Longrightarrow> \<exists>c. js_or a b = Inr c \<and> (truthy c \<longleftrightarrow> holds a \<or> holds b)"
  by (auto simp: js_or_def holds_def)

section \<open>Origin validation\<close>

lemma split_on_nonempty: "split_on c s \<noteq> []"
  by (induction s) (auto split: list.splits)

lemma allowedOrigins_empty_iff: "allowedOrigins env = [] \<longleftrightarrow> (env = None \<or> env = Some [])"
  by (auto simp: allowedOrigins_def split_on_nonempty split: option.splits)

text \<open>
  Claim C8, as stated, fails: with the variable unset the allow-list is empty, the origin is
  not on it, and the middleware still calls \<open>next()\<close> (the guard \<open>allowedOrigins.length > 0\<close>
  of line 19).
\<close>

theorem origin_rejected_counterexample:
  "''https://evil.example'' \<notin> set (allowedOrigins None) \<and>
   security_middleware None (Some ''https://evil.example'') = Next"
  by (simp add: security_middleware_def allowedOrigins_def)

text \<open>
  Claim C8, amended. When the environment variable is set to a non-empty string, every
  request whose Origin header is non-empty and is not one of the comma-separated entries
  is answered 403 with the JSON-RPC error body of code -32000 and not passed on; when the
  variable is unset or empty no origin is rejected; a request with no Origin header (or an
  empty one) is never rejected.
\<close>

theorem origin_validation:
  "security_middleware env None = Next \<and>
   security_middleware env (Some []) = Next \<and>
   ((env = None \<or> env = Some []) \<longrightarrow> security_middleware env origin = Next) \<and>
   (e \<noteq> [] \<and> og \<noteq> [] \<and> og \<notin> set (split_on (CHR '','') e) \<longrightarrow>
      security_middleware (Some e) (Some og) =
        Answered 403
          (JObject [(''jsonrpc'', JString ''2.0''),
                    (''error'', JObject [(''code'', JNumber (- 32000)),
                                         (''message'', JString ''Forbidden: Invalid Origin'')]),
                    (''id'', JNull)]))"
  by (auto simp: security_middleware_def allowedOrigins_def split_on_nonempty
           split: option.splits)

theorem origin_validation_witness:
  "security_middleware (Some ''https://a.example,https://b.example'') None = Next \<and>
   security_middleware None (Some ''https://evil.example'') = Next \<and>
   security_middleware (Some ''https://a.example,https://b.example'') (Some ''https://b.example'') = Next \<and>
   security_middleware (Some ''https://a.example,https://b.example'') (Some ''https://evil.example'') =
     Answered 403
       (JObject [(''jsonrpc'', JString ''2.0''),
                 (''error'', JObject [(''code'', JNumber (- 32000)),
                                      (''message'', JString ''Forbidden: Invalid Origin'')]),
                 (''id'', JNull)])"
  using origin_validation [of "Some ''https://a.example,https://b.example''" None
                              "''https://a.example,https://b.example''" "''https://evil.example''"]
        origin_validation [of None "Some ''https://evil.example''" "''x''" "''y''"]
  by (simp add: security_middleware_def allowedOrigins_def)

lemma example_runtime_sel:
  "uuidv4 example_runtime n = ''uuid-'' @ replicate n (CHR ''x'')"
  "JSON_stringify example_runtime (JObject kvs) = concat (map fst kvs)"
  "createMcpServer example_runtime = (\<lambda>hist msg. Emits [])"
  by (simp_all add: example_runtime_def)

section \<open>Outbound resolution order\<close>



section \<open>Queued messages and the first sink\<close>

lemma send_frame:
  "send rt m (h, t) = (h', t') \<Longrightarrow>
     promiseCount h' = promiseCount h \<and> onmessage t' = onmessage t \<and>
     received t' = received t \<and> sessionId t' = sessionId t"
  by (auto simp: send_def split: option.splits if_splits)

lemma send_no_pending:
  "pendingRequestHandler t = None \<Longrightarrow> send rt m (h, t) = (h', t') \<Longrightarrow>
     resolutions h' = resolutions h \<and> pendingRequestHandler t' = None"
  by (auto simp: send_def split: option.splits if_splits)

lemma fold_send_frame:
  "fold (send rt) ms (h, t) = (h', t') \<Longrightarrow>
     promiseCount h' = promiseCount h \<and> onmessage t' = onmessage t \<and>
     received t' = received t \<and> sessionId t' = sessionId t"
proof (induction ms arbitrary: h t)
  case Nil
  then show ?case by simp
next
  case (Cons m ms)
  obtain h1 t1 where s: "send rt m (h, t) = (h1, t1)" by (cases "send rt m (h, t)")
  with Cons.prems have "fold (send rt) ms (h1, t1) = (h', t')" by simp
  from Cons.IH [OF this] send_frame [OF s] show ?case by simp
qed

lemma fold_send_no_pending:
  "pendingRequestHandler t = None \<Longrightarrow> fold (send rt) ms (h, t) = (h', t') \<Longrightarrow>
     resolutions h' = resolutions h \<and> pendingRequestHandler t' = None"
proof (induction ms arbitrary: h t)
  case Nil
  then show ?case by simp
next
  case (Cons m ms)
  obtain h1 t1 where s: "send rt m (h, t) = (h1, t1)" by (cases "send rt m (h, t)")
  with Cons.prems have f: "fold (send rt) ms (h1, t1) = (h', t')" by simp
  from send_no_pending [OF Cons.prems(1) s] Cons.IH [OF _ f] show ?case by simp
qed


lemma fold_send_queues:
  "currentResponse t = None \<Longrightarrow> pendingRequestHandler t = None \<Longrightarrow>
   fold (send rt) ms (h, t) = (h, t\<lparr>messageQueue := messageQueue t @ ms\<rparr>)"
proof (induction ms arbitrary: t)
  case Nil
  then show ?case by simp
next
  case (Cons m ms)
  have "send rt m (h, t) = (h, t\<lparr>messageQueue := messageQueue t @ [m]\<rparr>)"
    using Cons.prems by (simp add: send_def)
  then show ?case using Cons.IH [of "t\<lparr>messageQueue := messageQueue t @ [m]\<rparr>"] Cons.prems
    by simp
qed

lemma send_sink_headers:
  "send rt m (h, t) = (h', t') \<Longrightarrow>
     map_option headers (currentResponse t') = map_option headers (currentResponse t)"
  by (auto simp: send_def split: option.splits if_splits)

lemma fold_send_sink_headers:
  "fold (send rt) ms (h, t) = (h', t') \<Longrightarrow>
     map_option headers (currentResponse t') = map_option headers (currentResponse t)"
proof (induction ms arbitrary: h t)
  case Nil
  then show ?case by simp
next
  case (Cons m ms)
  obtain h1 t1 where s: "send rt m (h, t) = (h1, t1)" by (cases "send rt m (h, t)")
  with Cons.prems have "fold (send rt) ms (h1, t1) = (h', t')" by simp
  from Cons.IH [OF this] send_sink_headers [OF s] show ?case by simp
qed

lemma flushQueue_empty: "messageQueue t = [] \<Longrightarrow> flushQueue rt (h, t) = Some (h, t)"
  by (subst flushQueue.simps) simp

lemma flushQueue_open:
  "pendingRequestHandler t = None \<Longrightarrow> currentResponse t = Some res \<Longrightarrow> \<not> writableEnded res \<Longrightarrow>
   \<forall>m \<in> set (messageQueue t). truthy m \<Longrightarrow>
   flushQueue rt (h, t) =
     Some (h\<lparr>uuidCount := uuidCount h + length (messageQueue t)\<rparr>,
           t\<lparr>messageQueue := [],
             currentResponse := Some (res\<lparr>chunks := chunks res @ sse_events rt (uuidCount h) (messageQueue t)\<rparr>)\<rparr>)"
proof (induction "messageQueue t" arbitrary: h t res)
  case Nil
  then show ?case by (subst flushQueue.simps) simp
next
  case (Cons m q)
  let ?t1 = "t\<lparr>messageQueue := q\<rparr>"
  let ?res' = "res\<lparr>chunks := chunks res @ [sse_event (uuidv4 rt (uuidCount h)) (JSON_stringify rt m)]\<rparr>"
  let ?h' = "h\<lparr>uuidCount := Suc (uuidCount h)\<rparr>"
  let ?t' = "?t1\<lparr>currentResponse := Some ?res'\<rparr>"
  have q: "messageQueue t = m # q" using Cons.hyps(2) by simp
  have tm: "truthy m" and tq: "\<forall>x \<in> set q. truthy x" using Cons.prems(4) q by simp_all
  have s: "send rt m (h, ?t1) = (?h', ?t')"
    using Cons.prems by (simp add: send_def)
  have step: "flushQueue rt (h, t) = flushQueue rt (?h', ?t')"
    using q tm s by (subst flushQueue.simps) simp
  have "flushQueue rt (?h', ?t') =
     Some (?h'\<lparr>uuidCount := uuidCount ?h' + length (messageQueue ?t')\<rparr>,
           ?t'\<lparr>messageQueue := [],
               currentResponse := Some (?res'\<lparr>chunks := chunks ?res' @ sse_events rt (uuidCount ?h') (messageQueue ?t')\<rparr>)\<rparr>)"
    by (rule Cons.hyps(1)) (use Cons.prems tq in simp_all)
  then show ?case
    unfolding step by (simp add: q)
qed

text \<open>
  Claim C3, as stated, fails. Two messages are sent while no sink is attached and no
  Pending Responder is installed, and both are queued. A responder is installed before the
  first \<open>attachResponse\<close>. The loop hands each queued message to \<open>send\<close>, which serves the
  responder first: the first message goes to the responder, and the second alone is
  written to the sink.
\<close>

theorem attach_with_responder_counterexample:
  "fold (send example_runtime)
     [example_response 1, JObject [(''jsonrpc'', JString ''2.0''), (''method'', JString ''notifications/progress'')]]
     (\<lparr>uuidCount = 0, promiseCount = 1, resolutions = []\<rparr>, newTransport ''s1'') =
     (\<lparr>uuidCount = 0, promiseCount = 1, resolutions = []\<rparr>,
      (newTransport ''s1'')
        \<lparr>messageQueue := [example_response 1,
            JObject [(''jsonrpc'', JString ''2.0''), (''method'', JString ''notifications/progress'')]]\<rparr>) \<and>
   attachResponse example_runtime
     \<lparr>statusCode = 200, headers = [], chunks = [], writableEnded = False\<rparr>
     (\<lparr>uuidCount = 0, promiseCount = 1, resolutions = []\<rparr>,
      setPendingRequestHandler 0
        ((newTransport ''s1'')
           \<lparr>messageQueue := [example_response 1,
               JObject [(''jsonrpc'', JString ''2.0''), (''method'', JString ''notifications/progress'')]]\<rparr>)) =
     Some (\<lparr>uuidCount = 1, promiseCount = 1, resolutions = [(0, example_response 1)]\<rparr>,
           (newTransport ''s1'')
             \<lparr>currentResponse := Some
                \<lparr>statusCode = 200, headers = [],
                 chunks = [sse_event ''uuid-'' ''jsonrpcmethod''],
                 writableEnded = False\<rparr>\<rparr>)"
proof -
  let ?n = "JObject [(''jsonrpc'', JString ''2.0''), (''method'', JString ''notifications/progress'')]"
  let ?h = "\<lparr>uuidCount = 0, promiseCount = 1, resolutions = []\<rparr>"
  let ?res = "\<lparr>statusCode = 200, headers = [], chunks = [], writableEnded = False\<rparr>"
  have queued: "fold (send example_runtime) [example_response 1, ?n] (?h, newTransport ''s1'') =
      (?h, (newTransport ''s1'')\<lparr>messageQueue := [example_response 1, ?n]\<rparr>)"
    by (simp add: send_def newTransport_def)
  let ?t0 = "(newTransport ''s1'')\<lparr>messageQueue := [example_response 1, ?n],
               currentResponse := Some ?res, pendingRequestHandler := Some 0\<rparr>"
  let ?h1 = "\<lparr>uuidCount = 0, promiseCount = 1, resolutions = [(0, example_response 1)]\<rparr>"
  let ?t1 = "(newTransport ''s1'')\<lparr>messageQueue := [?n], currentResponse := Some ?res\<rparr>"
  let ?h2 = "\<lparr>uuidCount = 1, promiseCount = 1, resolutions = [(0, example_response 1)]\<rparr>"
  let ?t2 = "(newTransport ''s1'')\<lparr>currentResponse := Some
                \<lparr>statusCode = 200, headers = [], chunks = [sse_event ''uuid-'' ''jsonrpcmethod''],
                 writableEnded = False\<rparr>\<rparr>"
  have s1: "flushQueue example_runtime (?h, ?t0) = flushQueue example_runtime (?h1, ?t1)"
    by (subst flushQueue.simps) (simp add: send_def newTransport_def example_response_def)
  have s2: "flushQueue example_runtime (?h1, ?t1) = flushQueue example_runtime (?h2, ?t2)"
    by (subst flushQueue.simps) (simp add: send_def newTransport_def example_runtime_sel)
  have s3: "flushQueue example_runtime (?h2, ?t2) = Some (?h2, ?t2)"
    by (rule flushQueue_empty) (simp add: newTransport_def)
  have "attachResponse example_runtime ?res
      (?h, setPendingRequestHandler 0
             ((newTransport ''s1'')\<lparr>messageQueue := [example_response 1, ?n]\<rparr>)) = Some (?h2, ?t2)"
    using s1 s2 s3
    by (simp add: attachResponse_def setPendingRequestHandler_def newTransport_def)
  with queued show ?thesis by simp
qed

text \<open>
  Claim C3, amended. Take a transport with no sink attached and no Pending Responder
  installed, and any sequence of messages (each truthy, as every JSON-RPC message object
  is) sent in that state: every one is appended to the queue. The next \<open>attachResponse\<close>,
  made while still no Pending Responder is installed and with a sink that is not ended,
  returns, and has written every queued message to the sink as one SSE event each, in
  insertion order and once, after what the sink held before; the queue is left empty.
\<close>

theorem attach_drains_queue:
  assumes "currentResponse t = None" and "pendingRequestHandler t = None"
    and "\<not> writableEnded res" and "\<forall>m \<in> set (messageQueue t @ ms). truthy m"
  shows "fold (send rt) ms (h, t) = (h, t\<lparr>messageQueue := messageQueue t @ ms\<rparr>) \<and>
     attachResponse rt res (fold (send rt) ms (h, t)) =
       Some (h\<lparr>uuidCount := uuidCount h + length (messageQueue t @ ms)\<rparr>,
             t\<lparr>messageQueue := [],
               currentResponse := Some (res\<lparr>chunks := chunks res @
                   sse_events rt (uuidCount h) (messageQueue t @ ms)\<rparr>)\<rparr>)"
proof -
  let ?t1 = "t\<lparr>messageQueue := messageQueue t @ ms\<rparr>"
  have queued: "fold (send rt) ms (h, t) = (h, ?t1)"
    using assms(1,2) by (rule fold_send_queues)
  let ?t2 = "?t1\<lparr>currentResponse := Some res\<rparr>"
  have "flushQueue rt (h, ?t2) =
     Some (h\<lparr>uuidCount := uuidCount h + length (messageQueue ?t2)\<rparr>,
           ?t2\<lparr>messageQueue := [],
               currentResponse := Some (res\<lparr>chunks := chunks res @ sse_events rt (uuidCount h) (messageQueue ?t2)\<rparr>)\<rparr>)"
    by (rule flushQueue_open) (use assms in simp_all)
  then show ?thesis
    by (simp add: queued attachResponse_def)
qed

theorem attach_drains_queue_witness:
  "fold (send example_runtime)
     [example_response 1, JObject [(''jsonrpc'', JString ''2.0''), (''method'', JString ''notifications/progress'')]]
     (\<lparr>uuidCount = 0, promiseCount = 0, resolutions = []\<rparr>, newTransport ''s1'') =
     (\<lparr>uuidCount = 0, promiseCount = 0, resolutions = []\<rparr>,
      (newTransport ''s1'')
        \<lparr>messageQueue := [example_response 1,
            JObject [(''jsonrpc'', JString ''2.0''), (''method'', JString ''notifications/progress'')]]\<rparr>) \<and>
   attachResponse example_runtime
     \<lparr>statusCode = 200, headers = [], chunks = [sse_event ''prime'' []], writableEnded = False\<rparr>
     (fold (send example_runtime)
        [example_response 1, JObject [(''jsonrpc'', JString ''2.0''), (''method'', JString ''notifications/progress'')]]
        (\<lparr>uuidCount = 0, promiseCount = 0, resolutions = []\<rparr>, newTransport ''s1'')) =
     Some (\<lparr>uuidCount = 2, promiseCount = 0, resolutions = []\<rparr>,
           (newTransport ''s1'')
             \<lparr>currentResponse := Some
                \<lparr>statusCode = 200, headers = [],
                 chunks = [''id: prime'' @ [CHR 0x0A] @ ''event: message'' @ [CHR 0x0A] @
                             ''data: '' @ [CHR 0x0A, CHR 0x0A],
                           ''id: uuid-'' @ [CHR 0x0A] @ ''event: message'' @ [CHR 0x0A] @
                             ''data: jsonrpcidresult'' @ [CHR 0x0A, CHR 0x0A],
                           ''id: uuid-x'' @ [CHR 0x0A] @ ''event: message'' @ [CHR 0x0A] @
                             ''data: jsonrpcmethod'' @ [CHR 0x0A, CHR 0x0A]],
                 writableEnded = False\<rparr>\<rparr>)"
proof -
  let ?n = "JObject [(''jsonrpc'', JString ''2.0''), (''method'', JString ''notifications/progress'')]"
  let ?h = "\<lparr>uuidCount = 0, promiseCount = 0, resolutions = []\<rparr>"
  let ?t = "newTransport ''s1''"
  let ?res = "\<lparr>statusCode = 200, headers = [], chunks = [sse_event ''prime'' []], writableEnded = False\<rparr>"
  let ?ms = "[example_response 1, ?n]"
  have a: "currentResponse ?t = None" and b: "pendingRequestHandler ?t = None"
    by (simp_all add: newTransport_def)
  have c: "\<not> writableEnded ?res" by simp
  have d: "\<forall>m \<in> set (messageQueue ?t @ ?ms). truthy m"
    by (simp add: newTransport_def example_response_def)
  note drained = attach_drains_queue [OF a b c d, of example_runtime ?h]
  from drained [THEN conjunct1] drained [THEN conjunct2]
  show ?thesis
    by (simp add: newTransport_def example_runtime_sel example_response_def sse_event_def
          numeral_2_eq_2)
qed

section \<open>Message-submit: unknown session\<close>

text \<open>
  Claim C6. A POST that supplies a session identifier (a non-empty header, as line 214
  tests it) that is not in the registry is answered 404, whatever the body is. The
  handler returns the state it was given: no transport has received the message, and the
  registry is unchanged.
\<close>

theorem post_unknown_session:
  "sid \<noteq> [] \<Longrightarrow> sessions w sid = None \<Longrightarrow>
   post_mcp rt (Some sid) body w = Some (w, Send 404 ''Session not found'')"
  by (simp add: post_mcp_def)

theorem post_unknown_session_witness:
  "post_mcp example_runtime (Some ''s2'')
     (JObject [(''jsonrpc'', JString ''2.0''), (''method'', JString ''notifications/initialized'')])
     (example_world (\<lambda>hist msg. Emits [])) =
     Some (example_world (\<lambda>hist msg. Emits []), Send 404 ''Session not found'')"
proof -
  have a: "''s2'' \<noteq> []" by simp
  have b: "sessions (example_world (\<lambda>hist msg. Emits [])) ''s2'' = None"
    by (simp add: example_world_def)
  from post_unknown_session [OF a b] show ?thesis by simp
qed

section \<open>Message-submit: dispatch on a known session\<close>

lemma awaited_first:
  "resolutions h' = old @ (p, m) # rest \<Longrightarrow> awaited p old h' = Some m"
  by (simp add: awaited_def)

lemma awaited_none:
  "resolutions h' = old \<Longrightarrow> awaited p old h' = None"
  by (simp add: awaited_def)

lemma request_not_notification: "holds (isRequest body) \<Longrightarrow> \<not> holds (isNotification body)"
  by (auto simp: holds_isRequest holds_isNotification)

lemma dispatch_first_test:
  "\<exists>c. js_or (isNotification body) (isResponse body) = Inr c \<and>
       (truthy c \<longleftrightarrow> holds (isNotification body) \<or> holds (isResponse body))"
  using classifier_values [of body] by (auto intro: js_or_holds)

lemma dispatch_second_test:
  "\<exists>c. isRequest body = Inr c \<and> (truthy c \<longleftrightarrow> holds (isRequest body))"
  using classifier_values [of body] by (auto simp: holds_def)

text \<open>The Request branch, when the engine returns.\<close>

lemma post_session_request:
  assumes req: "holds (isRequest body)" and nresp: "\<not> holds (isResponse body)"
    and eng: "onmessage t = Some f" and out: "f (received t) body = Emits outs"
  shows "post_session rt sid t body w =
     (let p = promiseCount (hp w);
          s0 = ((hp w)\<lparr>promiseCount := Suc p\<rparr>,
                t\<lparr>pendingRequestHandler := Some p, received := received t @ [body]\<rparr>);
          s1 = fold (send rt) outs s0
      in (w\<lparr>sessions := (sessions w)(sid \<mapsto> snd s1), hp := fst s1\<rparr>,
          case awaited p (resolutions (hp w)) (fst s1) of
            Some response \<Rightarrow> SendJson 200 response | None \<Rightarrow> NoReply))"
proof -
  obtain c where c: "js_or (isNotification body) (isResponse body) = Inr c" "\<not> truthy c"
    using dispatch_first_test [of body] request_not_notification [OF req] nresp by auto
  obtain c' where c': "isRequest body = Inr c'" "truthy c'"
    using dispatch_second_test [of body] req by auto
  show ?thesis
    by (simp add: post_session_def c c' Let_def handleMessage_def setPendingRequestHandler_def
          eng out split: prod.splits)
qed

lemma post_session_accepted:
  assumes "holds (isNotification body) \<or> holds (isResponse body)"
    and eng: "onmessage t = Some f" and out: "f (received t) body = Emits outs"
  shows "post_session rt sid t body w =
     (let s1 = fold (send rt) outs (hp w, t\<lparr>received := received t @ [body]\<rparr>)
      in (w\<lparr>sessions := (sessions w)(sid \<mapsto> snd s1), hp := fst s1\<rparr>, End 202))"
proof -
  obtain c where c: "js_or (isNotification body) (isResponse body) = Inr c" "truthy c"
    using dispatch_first_test [of body] assms(1) by auto
  show ?thesis
    by (simp add: post_session_def c Let_def handleMessage_def eng out split: prod.splits)
qed

lemma post_mcp_accepted:
  assumes "sid \<noteq> []" and "sessions w sid = Some t"
    and "holds (isNotification body) \<or> holds (isResponse body)"
    and "onmessage t = Some f" and "f (received t) body = Emits outs"
  shows "\<exists>h' t'.
     post_mcp rt (Some sid) body w =
       Some (w\<lparr>sessions := (sessions w)(sid \<mapsto> t'), hp := h'\<rparr>, End 202) \<and>
     (h', t') = fold (send rt) outs (hp w, t\<lparr>received := received t @ [body]\<rparr>) \<and>
     promiseCount h' = promiseCount (hp w) \<and>
     received t' = received t @ [body] \<and>
     onmessage t' = onmessage t \<and> sessionId t' = sessionId t \<and>
     map_option headers (currentResponse t') = map_option headers (currentResponse t) \<and>
     (pendingRequestHandler t = None \<longrightarrow>
        pendingRequestHandler t' = None \<and> resolutions h' = resolutions (hp w))"
proof -
  let ?s0 = "(hp w, t\<lparr>received := received t @ [body]\<rparr>)"
  obtain h' t' where f: "fold (send rt) outs ?s0 = (h', t')" by (cases "fold (send rt) outs ?s0")
  have "post_session rt sid t body w =
      (w\<lparr>sessions := (sessions w)(sid \<mapsto> t'), hp := h'\<rparr>, End 202)"
    using post_session_accepted [OF assms(3,4,5), of rt sid w] f by (simp add: Let_def)
  then have "post_mcp rt (Some sid) body w =
      Some (w\<lparr>sessions := (sessions w)(sid \<mapsto> t'), hp := h'\<rparr>, End 202)"
    using assms(1,2) by (simp add: post_mcp_def)
  moreover have "promiseCount h' = promiseCount (hp w) \<and> received t' = received t @ [body] \<and>
      onmessage t' = onmessage t \<and> sessionId t' = sessionId t"
    using fold_send_frame [OF f] by simp
  moreover have "map_option headers (currentResponse t') = map_option headers (currentResponse t)"
    using fold_send_sink_headers [OF f] by simp
  moreover have "pendingRequestHandler t = None \<longrightarrow>
      pendingRequestHandler t' = None \<and> resolutions h' = resolutions (hp w)"
    using fold_send_no_pending [OF _ f] by simp
  ultimately show ?thesis using f by auto
qed

lemma post_mcp_request:
  assumes "sid \<noteq> []" and "sessions w sid = Some t"
    and "holds (isRequest body)" and "\<not> holds (isResponse body)"
    and "onmessage t = Some f" and "f (received t) body = Emits outs"
  shows "\<exists>h' t'.
     post_mcp rt (Some sid) body w =
       Some (w\<lparr>sessions := (sessions w)(sid \<mapsto> t'), hp := h'\<rparr>,
             case outs of [] \<Rightarrow> NoReply | m # ms \<Rightarrow> SendJson 200 m) \<and>
     promiseCount h' = Suc (promiseCount (hp w)) \<and>
     received t' = received t @ [body] \<and>
     onmessage t' = onmessage t \<and> sessionId t' = sessionId t \<and>
     map_option headers (currentResponse t') = map_option headers (currentResponse t)"
proof -
  let ?p = "promiseCount (hp w)"
  let ?s0 = "((hp w)\<lparr>promiseCount := Suc ?p\<rparr>,
              t\<lparr>pendingRequestHandler := Some ?p, received := received t @ [body]\<rparr>)"
  obtain h' t' where f: "fold (send rt) outs ?s0 = (h', t')" by (cases "fold (send rt) outs ?s0")
  have aw: "awaited ?p (resolutions (hp w)) h' = (case outs of [] \<Rightarrow> None | m # ms \<Rightarrow> Some m)"
  proof (cases outs)
    case Nil
    with f have "resolutions h' = resolutions (hp w)" by auto
    with Nil show ?thesis by (simp add: awaited_none)
  next
    case (Cons m ms)
    let ?s1 = "((hp w)\<lparr>promiseCount := Suc ?p, resolutions := resolutions (hp w) @ [(?p, m)]\<rparr>,
                t\<lparr>pendingRequestHandler := None, received := received t @ [body]\<rparr>)"
    have "send rt m ?s0 = ?s1" by (simp add: send_def)
    with f Cons have "fold (send rt) ms ?s1 = (h', t')" by simp
    from fold_send_no_pending [OF _ this] have "resolutions h' = resolutions (hp w) @ [(?p, m)]"
      by simp
    then show ?thesis using Cons by (simp add: awaited_first)
  qed
  have "post_session rt sid t body w =
      (w\<lparr>sessions := (sessions w)(sid \<mapsto> t'), hp := h'\<rparr>,
       case outs of [] \<Rightarrow> NoReply | m # ms \<Rightarrow> SendJson 200 m)"
    using post_session_request [OF assms(3,4,5,6), of rt sid w] f aw
    by (simp add: Let_def split: list.splits)
  then have "post_mcp rt (Some sid) body w =
      Some (w\<lparr>sessions := (sessions w)(sid \<mapsto> t'), hp := h'\<rparr>,
            case outs of [] \<Rightarrow> NoReply | m # ms \<Rightarrow> SendJson 200 m)"
    using assms(1,2) by (simp add: post_mcp_def)
  moreover have "promiseCount h' = Suc ?p \<and> received t' = received t @ [body] \<and>
      onmessage t' = onmessage t \<and> sessionId t' = sessionId t"
    using fold_send_frame [OF f] by simp
  moreover have "map_option headers (currentResponse t') = map_option headers (currentResponse t)"
    using fold_send_sink_headers [OF f] by simp
  ultimately show ?thesis by blast
qed

lemma example_world_session:
  "sessions (example_world f) ''s1'' = Some ((newTransport ''s1'')\<lparr>onmessage := Some f\<rparr>)"
  by (simp add: example_world_def)

section \<open>Message-submit: a Request on a known session\<close>




section \<open>Message-submit: a body that is both Request and Response\<close>

lemma object_request_with_result:
  assumes "map_of kvs ''method'' = Some (JString s)" and "map_of kvs ''id'' = Some i"
    and "i \<noteq> JUndefined"
    and "(\<exists>r. map_of kvs ''result'' = Some r \<and> r \<noteq> JUndefined) \<or>
         (\<exists>e. map_of kvs ''error'' = Some e \<and> e \<noteq> JUndefined)"
  shows "holds (isRequest (JObject kvs)) \<and> holds (isResponse (JObject kvs))"
  using assms by (auto simp: holds_isRequest holds_isResponse split: option.splits)

text \<open>
  Claim C4, as stated, fails. The body has a string \<open>method\<close>, an \<open>id\<close> and a \<open>result\<close>;
  \<open>isRequest\<close> holds of it, but the handler tests Notification and Response first (line
  251): it answers 202 at once, creates no promise and installs no Pending Responder, as
  for a Response.
\<close>

theorem request_with_result_counterexample:
  "holds (isRequest (JObject [(''jsonrpc'', JString ''2.0''), (''id'', JNumber 1),
                               (''method'', JString ''ping''), (''result'', JObject [])])) \<and>
   post_mcp example_runtime (Some ''s1'')
     (JObject [(''jsonrpc'', JString ''2.0''), (''id'', JNumber 1),
               (''method'', JString ''ping''), (''result'', JObject [])])
     (example_world (\<lambda>hist msg. Emits [])) =
     Some (\<lparr>sessions = [''s1'' \<mapsto> (newTransport ''s1'')
               \<lparr>onmessage := Some (\<lambda>hist msg. Emits []),
                received := [JObject [(''jsonrpc'', JString ''2.0''), (''id'', JNumber 1),
                                      (''method'', JString ''ping''), (''result'', JObject [])]]\<rparr>],
            hp = \<lparr>uuidCount = 0, promiseCount = 0, resolutions = []\<rparr>\<rparr>,
           End 202)"
  by (simp add: holds_isRequest post_mcp_def post_session_def example_world_def
        isNotification_def isResponse_def js_and_def js_or_def js_test_def
        handleMessage_def newTransport_def)

text \<open>
  Claim C4, amended. For every object message with a string \<open>method\<close>, a defined \<open>id\<close>
  and a defined \<open>result\<close> or \<open>error\<close>, both \<open>isRequest\<close> and \<open>isResponse\<close> hold, and the
  handler, which tests Notification and Response before Request, handles it as a
  Response: on a known session whose engine returns, the message is delivered once, the
  reply is 202, and no promise is created and no Pending Responder installed.
\<close>

theorem request_with_result_is_accepted:
  assumes "map_of kvs ''method'' = Some (JString s)" and "map_of kvs ''id'' = Some i"
    and "i \<noteq> JUndefined"
    and "(\<exists>r. map_of kvs ''result'' = Some r \<and> r \<noteq> JUndefined) \<or>
         (\<exists>e. map_of kvs ''error'' = Some e \<and> e \<noteq> JUndefined)"
    and "sid \<noteq> []" and "sessions w sid = Some t"
    and "onmessage t = Some f" and "f (received t) (JObject kvs) = Emits outs"
  shows "holds (isRequest (JObject kvs)) \<and> holds (isResponse (JObject kvs)) \<and>
    (\<exists>h' t'.
       post_mcp rt (Some sid) (JObject kvs) w =
         Some (w\<lparr>sessions := (sessions w)(sid \<mapsto> t'), hp := h'\<rparr>, End 202) \<and>
       (h', t') = fold (send rt) outs (hp w, t\<lparr>received := received t @ [JObject kvs]\<rparr>) \<and>
       promiseCount h' = promiseCount (hp w) \<and>
       received t' = received t @ [JObject kvs] \<and>
       (pendingRequestHandler t = None \<longrightarrow>
          pendingRequestHandler t' = None \<and> resolutions h' = resolutions (hp w)))"
proof -
  have both: "holds (isRequest (JObject kvs)) \<and> holds (isResponse (JObject kvs))"
    using assms(1-4) by (rule object_request_with_result)
  then have "holds (isNotification (JObject kvs)) \<or> holds (isResponse (JObject kvs))" by simp
  from post_mcp_accepted [OF assms(5,6) this assms(7,8), of rt]
  obtain h' t' where
    "post_mcp rt (Some sid) (JObject kvs) w =
       Some (w\<lparr>sessions := (sessions w)(sid \<mapsto> t'), hp := h'\<rparr>, End 202)"
    "(h', t') = fold (send rt) outs (hp w, t\<lparr>received := received t @ [JObject kvs]\<rparr>)"
    "promiseCount h' = promiseCount (hp w)"
    "received t' = received t @ [JObject kvs]"
    "pendingRequestHandler t = None \<longrightarrow>
       pendingRequestHandler t' = None \<and> resolutions h' = resolutions (hp w)"
    by (elim exE conjE)
  with both show ?thesis by (intro conjI exI [of _ h'] exI [of _ t']) simp_all
qed

theorem request_with_result_is_accepted_witness:
  "holds (isRequest (JObject [(''id'', JNumber 1), (''method'', JString ''ping''),
                               (''error'', JObject [(''code'', JNumber 7)])])) \<and>
   holds (isResponse (JObject [(''id'', JNumber 1), (''method'', JString ''ping''),
                                (''error'', JObject [(''code'', JNumber 7)])])) \<and>
   post_mcp example_runtime (Some ''s1'')
     (JObject [(''id'', JNumber 1), (''method'', JString ''ping''),
               (''error'', JObject [(''code'', JNumber 7)])])
     (example_world (\<lambda>hist msg. Emits [example_response 1])) =
     Some (\<lparr>sessions = [''s1'' \<mapsto> (newTransport ''s1'')
               \<lparr>onmessage := Some (\<lambda>hist msg. Emits [example_response 1]),
                received := [JObject [(''id'', JNumber 1), (''method'', JString ''ping''),
                                      (''error'', JObject [(''code'', JNumber 7)])]],
                messageQueue := [example_response 1]\<rparr>],
            hp = \<lparr>uuidCount = 0, promiseCount = 0, resolutions = []\<rparr>\<rparr>,
           End 202)"
proof -
  let ?kvs = "[(''id'', JNumber 1), (''method'', JString ''ping''),
               (''error'', JObject [(''code'', JNumber 7)])]"
  let ?f = "\<lambda>(hist :: jsval list) (msg :: jsval). Emits [example_response 1]"
  let ?t = "(newTransport ''s1'')\<lparr>onmessage := Some ?f\<rparr>"
  have a: "map_of ?kvs ''method'' = Some (JString ''ping'')" by simp
  have b: "map_of ?kvs ''id'' = Some (JNumber 1)" by simp
  have c: "JNumber 1 \<noteq> JUndefined" by simp
  have d: "(\<exists>r. map_of ?kvs ''result'' = Some r \<and> r \<noteq> JUndefined) \<or>
           (\<exists>e. map_of ?kvs ''error'' = Some e \<and> e \<noteq> JUndefined)" by simp
  have e: "''s1'' \<noteq> []" by simp
  have g: "onmessage ?t = Some ?f" by simp
  have o: "?f (received ?t) (JObject ?kvs) = Emits [example_response 1]" by simp
  from request_with_result_is_accepted [OF a b c d e example_world_session g o, of example_runtime]
  show ?thesis
    by (auto simp: send_def example_world_def newTransport_def)
qed

section \<open>Message-submit: the reserved method on a known session\<close>

text \<open>
  Claim C10, as stated, fails. On the known session \<open>s1\<close> the body has the method
  \<open>initialize\<close>, a defined \<open>id\<close> and also a \<open>result\<close>: it takes the branch of line 251, is
  answered 202, and no Pending Responder is installed, so it is not handled as an
  ordinary Request.
\<close>

theorem initialize_on_known_session_counterexample:
  "holds (isInitializeRequest (JObject [(''jsonrpc'', JString ''2.0''), (''id'', JNumber 1),
                               (''method'', JString ''initialize''), (''result'', JObject [])])) \<and>
   holds (isRequest (JObject [(''jsonrpc'', JString ''2.0''), (''id'', JNumber 1),
                               (''method'', JString ''initialize''), (''result'', JObject [])])) \<and>
   post_mcp example_runtime (Some ''s1'')
     (JObject [(''jsonrpc'', JString ''2.0''), (''id'', JNumber 1),
               (''method'', JString ''initialize''), (''result'', JObject [])])
     (example_world (\<lambda>hist msg. Emits [example_response 1])) =
     Some (\<lparr>sessions = [''s1'' \<mapsto> (newTransport ''s1'')
               \<lparr>onmessage := Some (\<lambda>hist msg. Emits [example_response 1]),
                received := [JObject [(''jsonrpc'', JString ''2.0''), (''id'', JNumber 1),
                                      (''method'', JString ''initialize''), (''result'', JObject [])]],
                messageQueue := [example_response 1]\<rparr>],
            hp = \<lparr>uuidCount = 0, promiseCount = 0, resolutions = []\<rparr>\<rparr>,
           End 202)"
  by (simp add: holds_isRequest holds_isInitializeRequest post_mcp_def post_session_def
        example_world_def isNotification_def isResponse_def js_and_def js_or_def js_test_def
        handleMessage_def newTransport_def send_def)

text \<open>
  Claim C10, amended. On a known session, a body whose \<open>method\<close> is \<open>initialize\<close> and whose
  \<open>id\<close> is defined is dispatched like any other body: \<open>isInitializeRequest\<close> is not
  consulted. No session is created or registered anew (the registry keeps its keys, the
  session keeps its identifier and its engine) and no SSE bootstrap runs (the reply is not
  the open stream, and the sink, if any, keeps its headers). When the body has neither
  \<open>result\<close> nor \<open>error\<close> it is handled as an ordinary Request: one promise is created, and
  the reply is 200 with the first outbound message, or none while the engine produces
  none. When it has one, it is answered 202 as a Response.
\<close>

theorem initialize_on_known_session:
  assumes "sid \<noteq> []" and "sessions w sid = Some t"
    and "holds (isInitializeRequest body)" and "holds (isRequest body)"
    and "onmessage t = Some f" and "f (received t) body = Emits outs"
  shows "\<exists>h' t' r.
     post_mcp rt (Some sid) body w =
       Some (w\<lparr>sessions := (sessions w)(sid \<mapsto> t'), hp := h'\<rparr>, r) \<and>
     dom ((sessions w)(sid \<mapsto> t')) = dom (sessions w) \<and>
     onmessage t' = onmessage t \<and> sessionId t' = sessionId t \<and>
     map_option headers (currentResponse t') = map_option headers (currentResponse t) \<and>
     received t' = received t @ [body] \<and>
     r \<noteq> Streaming \<and>
     (if holds (isResponse body)
      then r = End 202 \<and> promiseCount h' = promiseCount (hp w)
      else r = (case outs of [] \<Rightarrow> NoReply | m # ms \<Rightarrow> SendJson 200 m) \<and>
           promiseCount h' = Suc (promiseCount (hp w)))"
proof -
  have d: "dom ((sessions w)(sid \<mapsto> x)) = dom (sessions w)" for x
    using assms(2) by auto
  show ?thesis
  proof (cases "holds (isResponse body)")
    case True
    then have "holds (isNotification body) \<or> holds (isResponse body)" by simp
    from post_mcp_accepted [OF assms(1,2) this assms(5,6), of rt]
    obtain h' t' where
      "post_mcp rt (Some sid) body w =
         Some (w\<lparr>sessions := (sessions w)(sid \<mapsto> t'), hp := h'\<rparr>, End 202)"
      "promiseCount h' = promiseCount (hp w)"
      "received t' = received t @ [body]"
      "onmessage t' = onmessage t" "sessionId t' = sessionId t"
      "map_option headers (currentResponse t') = map_option headers (currentResponse t)"
      by (elim exE conjE)
    with True d show ?thesis
      by (intro exI [of _ h'] exI [of _ t'] exI [of _ "End 202"]) simp
  next
    case False
    from post_mcp_request [OF assms(1,2,4) False assms(5,6), of rt]
    obtain h' t' where
      "post_mcp rt (Some sid) body w =
         Some (w\<lparr>sessions := (sessions w)(sid \<mapsto> t'), hp := h'\<rparr>,
               case outs of [] \<Rightarrow> NoReply | m # ms \<Rightarrow> SendJson 200 m)"
      "promiseCount h' = Suc (promiseCount (hp w))"
      "received t' = received t @ [body]"
      "onmessage t' = onmessage t" "sessionId t' = sessionId t"
      "map_option headers (currentResponse t') = map_option headers (currentResponse t)"
      by (elim exE conjE)
    with False d show ?thesis
      by (intro exI [of _ h'] exI [of _ t']
            exI [of _ "case outs of [] \<Rightarrow> NoReply | m # ms \<Rightarrow> SendJson 200 m"])
         (simp split: list.splits)
  qed
qed

theorem initialize_on_known_session_witness:
  "holds (isInitializeRequest (example_request ''initialize'')) \<and>
   holds (isRequest (example_request ''initialize'')) \<and>
   \<not> holds (isResponse (example_request ''initialize'')) \<and>
   post_mcp example_runtime (Some ''s1'') (example_request ''initialize'')
     (example_world (\<lambda>hist msg. Emits [example_response 2])) =
     Some (\<lparr>sessions = [''s1'' \<mapsto> (newTransport ''s1'')
               \<lparr>onmessage := Some (\<lambda>hist msg. Emits [example_response 2]),
                received := [example_request ''initialize'']\<rparr>],
            hp = \<lparr>uuidCount = 0, promiseCount = 1, resolutions = [(0, example_response 2)]\<rparr>\<rparr>,
           SendJson 200 (example_response 2))"
proof -
  let ?f = "\<lambda>(hist :: jsval list) (msg :: jsval). Emits [example_response 2]"
  let ?t = "(newTransport ''s1'')\<lparr>onmessage := Some ?f\<rparr>"
  have a: "''s1'' \<noteq> []" by simp
  have b: "holds (isInitializeRequest (example_request ''initialize''))"
    by (simp add: holds_isInitializeRequest example_request_def)
  have c: "holds (isRequest (example_request ''initialize''))"
    by (simp add: holds_isRequest example_request_def)
  have d: "\<not> holds (isResponse (example_request ''initialize''))"
    by (simp add: holds_isResponse example_request_def)
  have e: "onmessage ?t = Some ?f" by simp
  have o: "?f (received ?t) (example_request ''initialize'') = Emits [example_response 2]" by simp
  from initialize_on_known_session [OF a example_world_session b c e o, of example_runtime]
  have "map_option snd (post_mcp example_runtime (Some ''s1'') (example_request ''initialize'')
          (example_world ?f)) = Some (SendJson 200 (example_response 2))"
    using d by auto
  moreover have "map_option fst (post_mcp example_runtime (Some ''s1'') (example_request ''initialize'')
          (example_world ?f)) =
      Some \<lparr>sessions = [''s1'' \<mapsto> (newTransport ''s1'')
               \<lparr>onmessage := Some ?f, received := [example_request ''initialize'']\<rparr>],
            hp = \<lparr>uuidCount = 0, promiseCount = 1, resolutions = [(0, example_response 2)]\<rparr>\<rparr>"
    by (simp add: post_mcp_def post_session_def example_world_def example_request_def
          isNotification_def isResponse_def isRequest_def js_and_def js_or_def js_test_def
          handleMessage_def setPendingRequestHandler_def newTransport_def send_def awaited_def Let_def)
  ultimately show ?thesis using b c d
    by (cases "post_mcp example_runtime (Some ''s1'') (example_request ''initialize'') (example_world ?f)")
       auto
qed

section \<open>Message-submit: failure of the engine\<close>

lemma post_mcp_never_500:
  "post_mcp rt sh body w = Some (w', r) \<Longrightarrow> r \<noteq> Send 500 txt \<and> r \<noteq> SendJson 500 v \<and> r \<noteq> End 500"
  by (auto simp: post_mcp_def post_no_session_def post_initialize_def post_session_def Let_def
           split: option.splits if_splits sum.splits prod.splits)

text \<open>
  An engine that throws when the message is delivered. Delivery (line 265) is before the
  \<open>try\<close> (line 267), so the exception leaves the handler, which sends no reply of its own;
  what the client then receives is decided by the framework that called the handler. The
  Pending Responder installed at line 262 stays in the slot, the message is not queued
  again, and the session stays registered.
\<close>

lemma engine_throw_escapes_handler:
  "post_mcp example_runtime (Some ''s1'') (example_request ''ping'') (example_world (\<lambda>hist msg. Throws)) =
     Some (\<lparr>sessions = [''s1'' \<mapsto> (newTransport ''s1'')
                \<lparr>onmessage := Some (\<lambda>hist msg. Throws),
                 received := [example_request ''ping''],
                 pendingRequestHandler := Some 0\<rparr>],
            hp = \<lparr>uuidCount = 0, promiseCount = 1, resolutions = []\<rparr>\<rparr>,
           Uncaught EngineError)"
  by (simp add: post_mcp_def post_session_def example_world_def example_request_def
        isNotification_def isResponse_def isRequest_def js_and_def js_or_def js_test_def
        handleMessage_def setPendingRequestHandler_def newTransport_def Let_def)

section \<open>Message-submit: no session identifier\<close>

text \<open>
  Without session identifier the handler consults \<open>isInitializeRequest\<close> and nothing
  else: a body it accepts gets a new session under the next generated identifier, any
  other body is answered 400 and the state is returned as it was.
\<close>

lemma post_without_session:
  "sh = None \<or> sh = Some [] \<Longrightarrow>
   post_mcp rt sh body w =
     (if holds (isInitializeRequest body) then post_initialize rt body w
      else Some (w, Send 400 ''Missing MCP-Session-Id header''))"
  using classifier_values [of body]
  by (auto simp: post_mcp_def post_no_session_def holds_def)

lemma post_initialize_registers:
  "\<exists>w' r. post_initialize rt body w = Some (w', r) \<and>
     sessions w' (uuidv4 rt (uuidCount (hp w))) \<noteq> None \<and>
     (\<forall>s. s \<noteq> uuidv4 rt (uuidCount (hp w)) \<longrightarrow> sessions w' s = sessions w s)"
  by (simp add: post_initialize_def Let_def attachResponse_def connect_def newTransport_def
        flushQueue_empty split: prod.splits)

text \<open>
  Claim C5, evaluated on the code. A POST without session identifier whose body has the
  method \<open>initialize\<close> and no \<open>id\<close> (so it is not a Request) creates a session, registers
  it and opens the SSE stream: \<open>isInitializeRequest\<close> tests the method alone.
\<close>

theorem initialize_without_id_creates_session:
  "\<not> holds (isRequest (JObject [(''jsonrpc'', JString ''2.0''), (''method'', JString ''initialize'')])) \<and>
   post_mcp example_runtime None
     (JObject [(''jsonrpc'', JString ''2.0''), (''method'', JString ''initialize'')])
     \<lparr>sessions = Map.empty, hp = \<lparr>uuidCount = 0, promiseCount = 0, resolutions = []\<rparr>\<rparr> =
     Some (\<lparr>sessions = [''uuid-'' \<mapsto>
               \<lparr>onmessage = Some (createMcpServer example_runtime),
                received = [JObject [(''jsonrpc'', JString ''2.0''), (''method'', JString ''initialize'')]],
                currentResponse = Some
                  \<lparr>statusCode = 200,
                   headers = [(''MCP-Session-Id'', ''uuid-''),
                              (''Content-Type'', ''text/event-stream''),
                              (''Cache-Control'', ''no-cache''),
                              (''Connection'', ''keep-alive'')],
                   chunks = [sse_event ''uuid-x'' []],
                   writableEnded = False\<rparr>,
                messageQueue = [], sessionId = ''uuid-'', pendingRequestHandler = None\<rparr>],
            hp = \<lparr>uuidCount = 2, promiseCount = 0, resolutions = []\<rparr>\<rparr>,
           Streaming)"
  by (simp add: holds_isRequest post_mcp_def post_no_session_def post_initialize_def
        isInitializeRequest_def js_and_def js_test_def attachResponse_def flushQueue_empty
        connect_def newTransport_def handleMessage_def example_runtime_def Let_def)

end
